theory Spec2Isabelle
  imports Main
begin

section \<open>Python strings\<close>

text \<open>
  A Python \<open>str\<close> is modelled as a \<open>string\<close>, each \<open>char\<close> read as a code point
  below 256.  \<open>lower\<close>, \<open>strip\<close>, \<open>join\<close> and \<open>str_int\<close> are \<open>str.lower()\<close>,
  \<open>str.strip()\<close>, \<open>sep.join(...)\<close> and the decimal rendering \<open>str(n)\<close> of an
  \<open>int\<close>, restricted to those code points.
\<close>

definition lower_char :: "char \<Rightarrow> char" where
  "lower_char c =
     (let n = (of_char c :: nat)
      in if (65 \<le> n \<and> n \<le> 90) \<or> (192 \<le> n \<and> n \<le> 222 \<and> n \<noteq> 215)
         then char_of (n + 32) else c)"

definition lower :: "string \<Rightarrow> string" where
  "lower s = map lower_char s"

definition isspace :: "char \<Rightarrow> bool" where
  "isspace c =
     (let n = (of_char c :: nat)
      in (9 \<le> n \<and> n \<le> 13) \<or> (28 \<le> n \<and> n \<le> 32) \<or> n = 133 \<or> n = 160)"

definition lstrip :: "string \<Rightarrow> string" where
  "lstrip s = dropWhile isspace s"

definition rstrip :: "string \<Rightarrow> string" where
  "rstrip s = rev (dropWhile isspace (rev s))"

definition strip :: "string \<Rightarrow> string" where
  "strip s = rstrip (lstrip s)"

fun join :: "string \<Rightarrow> string list \<Rightarrow> string" where
  "join sep [] = []"
| "join sep [x] = x"
| "join sep (x # y # ys) = x @ sep @ join sep (y # ys)"

definition digit_char :: "nat \<Rightarrow> char" where
  "digit_char d = char_of (48 + d)"

fun str_nat :: "nat \<Rightarrow> string" where
  "str_nat n = (if n < 10 then [digit_char n] else str_nat (n div 10) @ [digit_char (n mod 10)])"

declare str_nat.simps [simp del]

definition str_int :: "int \<Rightarrow> string" where
  "str_int i = (if i < 0 then CHR ''-'' # str_nat (nat (- i)) else str_nat (nat i))"



section \<open>Errors, effects and the host system\<close>

text \<open>
  Every \<open>raise\<close> of the source is a value of \<open>error\<close>.  \<open>Raised\<close> stands for an
  exception raised inside a library call (\<open>mkdir\<close>, \<open>subprocess.run\<close>, \<open>stat\<close>),
  which the source never catches; \<open>ArgumentError\<close> for \<open>argparse\<close> rejecting the
  command line (exit status 2).
\<close>

datatype error =
    FileNotFoundError string
  | ValueError string
  | RuntimeError string
  | SystemExit string
  | ArgumentError string
  | ZeroDivisionError
  | Raised string

text \<open>
  A \<open>pathlib.Path\<close> is represented by its \<open>str()\<close> rendering.  The file system maps
  every existing path to its \<open>st_size\<close>.
\<close>

type_synonym path = string

type_synonym filesys = "path \<Rightarrow> nat option"

definition path_exists :: "filesys \<Rightarrow> path \<Rightarrow> bool" where
  "path_exists fs p = (fs p \<noteq> None)"

text \<open>The \<open>CompletedProcess\<close> of \<open>subprocess.run(cmd, capture_output=True, text=True)\<close>.\<close>

record completed =
  returncode :: int
  stdout :: string
  stderr :: string

text \<open>
  What the program does to the outside world, in order: directories it creates, argument
  vectors it hands to \<open>subprocess.run\<close>, lines it prints.
\<close>

datatype event = Mkdir path | Spawn "string list" | Print string

record world =
  files :: filesys
  trace :: "event list"

text \<open>
  The library and operating-system calls of the source are parameters:
  \<^item> \<open>Path_str s\<close> is \<open>str(Path(s))\<close>;
  \<^item> \<open>resolve\<close>, \<open>parent\<close>, \<open>suffix\<close> are \<open>Path.resolve()\<close>, \<open>Path.parent\<close>, \<open>Path.suffix\<close>;
  \<^item> \<open>mkdir fs p\<close> is \<open>p.mkdir(parents=True, exist_ok=True)\<close>: it raises or not, and
    leaves a file system;
  \<^item> \<open>which\<close> is \<open>shutil.which\<close>;
  \<^item> \<open>run cmd fs\<close> is \<open>subprocess.run\<close>: it raises or returns the completed process, and
    leaves the file system the child process produced;
  \<^item> \<open>size_line before after\<close> is the formatted size report (floating point, not
    modelled further).
\<close>

record env =
  Path_str :: "string \<Rightarrow> path"
  resolve :: "path \<Rightarrow> path"
  parent :: "path \<Rightarrow> path"
  suffix :: "path \<Rightarrow> string"
  mkdir :: "filesys \<Rightarrow> path \<Rightarrow> (string + unit) \<times> filesys"
  which :: "string \<Rightarrow> string option"
  run :: "string list \<Rightarrow> filesys \<Rightarrow> (string + completed) \<times> filesys"
  size_line :: "nat \<Rightarrow> nat \<Rightarrow> string"

section \<open>The program\<close>

text \<open>\<open>QUALITY_MAP\<close>, in insertion order (the order \<open>', '.join(QUALITY_MAP)\<close> lists the keys).\<close>

definition QUALITY_MAP :: "(string \<times> string) list" where
  "QUALITY_MAP =
     [(''screen'', ''/screen''),
      (''ebook'', ''/ebook''),
      (''printer'', ''/printer''),
      (''prepress'', ''/prepress''),
      (''default'', ''/default'')]"

text \<open>The loop of \<open>find_gs\<close> over the candidate names: the first truthy \<open>shutil.which\<close>.\<close>

fun which_first :: "(string \<Rightarrow> string option) \<Rightarrow> string list \<Rightarrow> string option" where
  "which_first wh [] = None"
| "which_first wh (name # names) =
     (case wh name of
        None \<Rightarrow> which_first wh names
      | Some p \<Rightarrow> if p \<noteq> [] then Some p else which_first wh names)"

text \<open>One round of that loop: \<open>p = shutil.which(name)\<close>, kept when \<open>if p:\<close> holds.\<close>

definition found :: "env \<Rightarrow> string \<Rightarrow> string option" where
  "found e name = which_first (which e) [name]"

text \<open>\<open>if explicit:\<close> is false for \<open>None\<close> and for the empty string.\<close>

definition find_gs :: "env \<Rightarrow> filesys \<Rightarrow> string option \<Rightarrow> error + string" where
  "find_gs e fs explicit =
     (if explicit \<noteq> None \<and> the explicit \<noteq> []
      then (let p = Path_str e (the explicit)
            in if path_exists fs p then Inr p
               else Inl (FileNotFoundError (''Ghostscript not found at: '' @ the explicit)))
      else (case which_first (which e) [''gswin64c'', ''gswin32c'', ''gs''] of
              Some p \<Rightarrow> Inr p
            | None \<Rightarrow>
                Inl (FileNotFoundError
                  (''Ghostscript not found. Install it and/or add its bin folder to PATH '' @
                   ''(so gswin64c.exe is discoverable).''))))"

text \<open>\<open>cmd[i:i] = extra\<close> for \<open>0 \<le> i \<le> len(cmd)\<close>.\<close>

definition slice_insert :: "'a list \<Rightarrow> nat \<Rightarrow> 'a list \<Rightarrow> 'a list" where
  "slice_insert cmd i extra = take i cmd @ extra @ drop i cmd"

text \<open>
  Lines 39 to 72 of \<open>compress_pdf\<close>: locate the engine, validate the preset, assemble
  \<open>cmd\<close>.  \<open>if not preset_gs\<close> is true for \<open>None\<close> and for the empty string.
\<close>

definition compress_cmd ::
  "env \<Rightarrow> filesys \<Rightarrow> path \<Rightarrow> path \<Rightarrow> string \<Rightarrow> int option \<Rightarrow> string option \<Rightarrow> error + string list"
where
  "compress_cmd e fs input_pdf output_pdf preset dpi gs_path =
     (case find_gs e fs gs_path of
        Inl err \<Rightarrow> Inl err
      | Inr gs \<Rightarrow>
          (let preset_gs = map_of QUALITY_MAP (lower preset)
           in if preset_gs = None \<or> the preset_gs = []
              then Inl (ValueError
                     (''Unknown preset '' @ [CHR 0x27] @ preset @ [CHR 0x27] @ ''. Choose: '' @
                      join '', '' (map fst QUALITY_MAP)))
              else
                (let cmd =
                   [gs,
                    ''-sDEVICE=pdfwrite'',
                    ''-dCompatibilityLevel=1.4'',
                    ''-dPDFSETTINGS='' @ the preset_gs,
                    ''-dNOPAUSE'',
                    ''-dBATCH'',
                    ''-dQUIET'',
                    ''-dDetectDuplicateImages=true'',
                    ''-dCompressFonts=true'',
                    ''-dSubsetFonts=true'',
                    ''-sOutputFile='' @ output_pdf,
                    input_pdf]
                 in case dpi of
                      None \<Rightarrow> Inr cmd
                    | Some d \<Rightarrow>
                        (let insert_at = length cmd - 2;
                             extra =
                               [''-dDownsampleColorImages=true'',
                                ''-dColorImageResolution='' @ str_int d,
                                ''-dDownsampleGrayImages=true'',
                                ''-dGrayImageResolution='' @ str_int d,
                                ''-dDownsampleMonoImages=true'',
                                ''-dMonoImageResolution='' @ str_int d]
                         in Inr (slice_insert cmd insert_at extra)))))"

text \<open>The message of the \<open>RuntimeError\<close> of lines 76 to 79.\<close>

definition failure_message :: "completed \<Rightarrow> string" where
  "failure_message result =
     ''Ghostscript failed.\<newline>'' @
     ''STDERR:\<newline>'' @ strip (stderr result) @ ''\<newline>\<newline>STDOUT:\<newline>'' @ strip (stdout result)"

definition compress_pdf ::
  "env \<Rightarrow> world \<Rightarrow> path \<Rightarrow> path \<Rightarrow> string \<Rightarrow> int option \<Rightarrow> string option \<Rightarrow> (error + unit) \<times> world"
where
  "compress_pdf e w input_pdf output_pdf preset dpi gs_path =
     (case compress_cmd e (files w) input_pdf output_pdf preset dpi gs_path of
        Inl err \<Rightarrow> (Inl err, w)
      | Inr cmd \<Rightarrow>
          (case run e cmd (files w) of
             (r, fs') \<Rightarrow>
               (let w' = \<lparr>files = fs', trace = trace w @ [Spawn cmd]\<rparr>
                in case r of
                     Inl exn \<Rightarrow> (Inl (Raised exn), w')
                   | Inr result \<Rightarrow>
                       if returncode result \<noteq> 0
                       then (Inl (RuntimeError (failure_message result)), w')
                       else (Inr (), w'))))"

text \<open>The \<open>Namespace\<close> that \<open>parse_args\<close> returns, before the \<open>choices\<close> check of \<open>--preset\<close>.\<close>

record args =
  args_input :: path
  args_output :: path
  args_preset :: string
  args_dpi :: "int option"
  args_gs :: "string option"

definition stat_size :: "filesys \<Rightarrow> path \<Rightarrow> error + nat" where
  "stat_size fs p = (case fs p of None \<Rightarrow> Inl (Raised ''stat'') | Some n \<Rightarrow> Inr n)"

definition main :: "env \<Rightarrow> world \<Rightarrow> args \<Rightarrow> (error + unit) \<times> world" where
  "main e w a =
     (if args_preset a \<notin> set (map fst QUALITY_MAP)
      then (Inl (ArgumentError (args_preset a)), w)
      else
        (let inp = resolve e (args_input a);
             out = resolve e (args_output a)
         in case mkdir e (files w) (parent e out) of
              (m, fs1) \<Rightarrow>
                (let w1 = \<lparr>files = fs1, trace = trace w @ [Mkdir (parent e out)]\<rparr>
                 in case m of
                      Inl exn \<Rightarrow> (Inl (Raised exn), w1)
                    | Inr _ \<Rightarrow>
                        if \<not> path_exists (files w1) inp \<or> lower (suffix e inp) \<noteq> ''.pdf''
                        then (Inl (SystemExit (''Input must be an existing PDF: '' @ inp)), w1)
                        else
                          (case compress_pdf e w1 inp out (args_preset a) (args_dpi a) (args_gs a) of
                             (Inl err, w2) \<Rightarrow> (Inl err, w2)
                           | (Inr _, w2) \<Rightarrow>
                               (case stat_size (files w2) inp of
                                  Inl err \<Rightarrow> (Inl err, w2)
                                | Inr before \<Rightarrow>
                                    (case stat_size (files w2) out of
                                       Inl err \<Rightarrow> (Inl err, w2)
                                     | Inr after \<Rightarrow>
                                         (let w3 = w2\<lparr>trace := trace w2 @ [Print (''Saved: '' @ out)]\<rparr>
                                          in if before = 0 then (Inl ZeroDivisionError, w3)
                                             else (Inr (),
                                                   w3\<lparr>trace := trace w3 @ [Print (size_line e before after)]\<rparr>))))))))"

section \<open>Reading the trace\<close>

fun spawned :: "event list \<Rightarrow> string list list" where
  "spawned [] = []"
| "spawned (Spawn cmd # evs) = cmd # spawned evs"
| "spawned (_ # evs) = spawned evs"

fun created :: "event list \<Rightarrow> path list" where
  "created [] = []"
| "created (Mkdir d # evs) = d # created evs"
| "created (_ # evs) = created evs"

section \<open>Letter case, as the specification words it\<close>

text \<open>
  Two characters are the same letter when they are equal or are the upper-case and
  lower-case form of one letter of the ASCII alphabet; two strings are equal up to letter
  case when they are so character by character.
\<close>

definition ascii_lower_letter :: "char \<Rightarrow> bool" where
  "ascii_lower_letter c = (97 \<le> (of_char c :: nat) \<and> (of_char c :: nat) \<le> 122)"

definition same_letter :: "char \<Rightarrow> char \<Rightarrow> bool" where
  "same_letter c d =
     (c = d \<or>
      (ascii_lower_letter d \<and> (of_char c :: nat) + 32 = of_char d) \<or>
      (ascii_lower_letter c \<and> (of_char d :: nat) + 32 = of_char c))"

definition case_variant :: "string \<Rightarrow> string \<Rightarrow> bool" where
  "case_variant p q = list_all2 same_letter p q"

section \<open>A sample host\<close>

text \<open>
  A POSIX host for the concrete runs below: Ghostscript is on the search path as \<open>gs\<close>,
  paths are written resolved and normalised (so \<open>Path_str\<close> and \<open>resolve\<close> leave them
  as they are), and \<open>/tmp/doc.pdf\<close> is a file of 2,000,000 bytes.
\<close>

definition posix_parent :: "path \<Rightarrow> path" where
  "posix_parent p =
     (let d = rev (drop 1 (dropWhile (\<lambda>c. c \<noteq> CHR ''/'') (rev p)))
      in if d = [] then ''/'' else d)"

definition posix_suffix :: "path \<Rightarrow> string" where
  "posix_suffix p =
     (let name = rev (takeWhile (\<lambda>c. c \<noteq> CHR ''/'') (rev p));
          ext = rev (takeWhile (\<lambda>c. c \<noteq> CHR ''.'') (rev name));
          i = length name - length ext - 1
      in if CHR ''.'' \<in> set name \<and> 0 < i \<and> ext \<noteq> [] then drop i name else [])"

text \<open>
  On this host \<open>mkdir\<close> never raises: a missing directory is entered with size 4096 (its
  ancestors exist in every run below), an existing path is left as it is.
\<close>

definition sample_mkdir :: "filesys \<Rightarrow> path \<Rightarrow> (string + unit) \<times> filesys" where
  "sample_mkdir fs d = (Inr (), if fs d = None then fs(d \<mapsto> 4096) else fs)"

definition sample_which :: "string \<Rightarrow> string option" where
  "sample_which name = (if name = ''gs'' then Some ''/usr/bin/gs'' else None)"

definition no_which :: "string \<Rightarrow> string option" where
  "no_which name = None"

text \<open>Two engines: one exits 0 and writes nothing, one exits 1 with a diagnostic.\<close>

definition gs_silent :: "string list \<Rightarrow> filesys \<Rightarrow> (string + completed) \<times> filesys" where
  "gs_silent cmd fs = (Inr \<lparr>returncode = 0, stdout = [], stderr = []\<rparr>, fs)"

definition gs_corrupt :: "string list \<Rightarrow> filesys \<Rightarrow> (string + completed) \<times> filesys" where
  "gs_corrupt cmd fs =
     (Inr \<lparr>returncode = 1, stdout = [], stderr = ''error: corrupt xref\<newline>''\<rparr>, fs)"

definition sample_size_line :: "nat \<Rightarrow> nat \<Rightarrow> string" where
  "sample_size_line before after = ''Size:''"

definition sample_fs :: filesys where
  "sample_fs =
     [''/'' \<mapsto> 4096, ''/tmp'' \<mapsto> 4096, ''/tmp/doc.pdf'' \<mapsto> 2000000,
      ''/usr/bin/gs'' \<mapsto> 100000]"

definition sample_env :: env where
  "sample_env =
     \<lparr>Path_str = (\<lambda>s. s), resolve = (\<lambda>p. p), parent = posix_parent, suffix = posix_suffix,
      mkdir = sample_mkdir, which = sample_which, run = gs_silent,
      size_line = sample_size_line\<rparr>"

definition sample_world :: world where
  "sample_world = \<lparr>files = sample_fs, trace = []\<rparr>"



text \<open>A search path on which both \<open>gswin32c\<close> and \<open>gs\<close> resolve.\<close>

definition windows_which :: "string \<Rightarrow> string option" where
  "windows_which name =
     (if name = ''gswin32c'' then Some ''C:/gs/bin/gswin32c.EXE''
      else if name = ''gs'' then Some ''C:/tools/gs.EXE''
      else None)"

text \<open>The same host with an engine that fails, and with no engine on the search path.\<close>

definition failing_env :: env where
  "failing_env = sample_env\<lparr>run := gs_corrupt\<rparr>"

definition bare_env :: env where
  "bare_env = sample_env\<lparr>which := no_which\<rparr>"


definition args_nested :: args where
  "args_nested =
     \<lparr>args_input = ''/tmp/x.pdf'', args_output = ''/tmp/x.pdf/out.pdf'',
      args_preset = ''ebook'', args_dpi = None, args_gs = None\<rparr>"




section \<open>Evaluation and lookup lemmas\<close>

lemmas char_eval = char_of_def bit_Suc_0_iff

lemma QUALITY_MAP_lookup:
  "map_of QUALITY_MAP k = (if k \<in> set (map fst QUALITY_MAP) then Some (CHR ''/'' # k) else None)"
  by (simp add: QUALITY_MAP_def)


lemma lower_char_same_letter:
  assumes "same_letter c d" and "ascii_lower_letter d"
  shows "lower_char c = d"
proof -
  have d: "97 \<le> (of_char d :: nat)" "(of_char d :: nat) \<le> 122"
    using assms(2) by (simp_all add: ascii_lower_letter_def)
  from assms(1) consider "c = d" | "(of_char c :: nat) + 32 = of_char d"
    | "ascii_lower_letter c" "(of_char d :: nat) + 32 = of_char c"
    by (auto simp: same_letter_def)
  then show ?thesis
  proof cases
    case 1
    with d show ?thesis by (simp add: lower_char_def Let_def)
  next
    case 2
    then have "65 \<le> (of_char c :: nat) \<and> (of_char c :: nat) \<le> 90" using d by arith
    moreover have "char_of ((of_char c :: nat) + 32) = d" using 2 by simp
    ultimately show ?thesis by (simp add: lower_char_def Let_def)
  next
    case 3
    then have "(of_char c :: nat) \<le> 122" by (simp add: ascii_lower_letter_def)
    with 3(2) d have False by arith
    then show ?thesis ..
  qed
qed

lemma lower_case_variant:
  assumes "case_variant p q" and "list_all ascii_lower_letter q"
  shows "lower p = q"
  using assms unfolding case_variant_def lower_def
  by (induction p q rule: list_all2_induct) (simp_all add: lower_char_same_letter)

lemma preset_names_lower:
  "name \<in> set (map fst QUALITY_MAP) \<Longrightarrow> list_all ascii_lower_letter name"
  by (auto simp: QUALITY_MAP_def ascii_lower_letter_def)

section \<open>What \<open>compress_pdf\<close> assembles\<close>

lemma compress_cmd_no_dpi:
  assumes "find_gs e fs gs_path = Inr gs"
    and "lower preset \<in> set (map fst QUALITY_MAP)"
  shows "compress_cmd e fs input_pdf output_pdf preset None gs_path =
         Inr [gs, ''-sDEVICE=pdfwrite'', ''-dCompatibilityLevel=1.4'',
              ''-dPDFSETTINGS=/'' @ lower preset, ''-dNOPAUSE'', ''-dBATCH'', ''-dQUIET'',
              ''-dDetectDuplicateImages=true'', ''-dCompressFonts=true'',
              ''-dSubsetFonts=true'', ''-sOutputFile='' @ output_pdf, input_pdf]"
  using assms by (simp add: compress_cmd_def QUALITY_MAP_lookup)


lemma compress_cmd_invalid:
  assumes "lower preset \<notin> set (map fst QUALITY_MAP)"
  shows "compress_cmd e fs input_pdf output_pdf preset dpi gs_path =
         (case find_gs e fs gs_path of
            Inl err \<Rightarrow> Inl err
          | Inr gs \<Rightarrow>
              Inl (ValueError (''Unknown preset '' @ [CHR 0x27] @ preset @ [CHR 0x27] @
                     ''. Choose: screen, ebook, printer, prepress, default'')))"
  using assms by (simp add: compress_cmd_def QUALITY_MAP_lookup QUALITY_MAP_def split: sum.splits)

lemma compress_pdf_Inl:
  "compress_cmd e (files w) input_pdf output_pdf preset dpi gs_path = Inl err \<Longrightarrow>
   compress_pdf e w input_pdf output_pdf preset dpi gs_path = (Inl err, w)"
  by (simp add: compress_pdf_def)

lemma trace_compress_pdf:
  "trace (snd (compress_pdf e w input_pdf output_pdf preset dpi gs_path)) =
     (case compress_cmd e (files w) input_pdf output_pdf preset dpi gs_path of
        Inl err \<Rightarrow> trace w
      | Inr cmd \<Rightarrow> trace w @ [Spawn cmd])"
  by (simp add: compress_pdf_def Let_def split: sum.splits prod.splits)

lemma find_gs_sample: "find_gs sample_env sample_fs None = Inr ''/usr/bin/gs''"
  by (simp add: find_gs_def sample_env_def sample_which_def)

lemma lower_EBook: "lower ''EBook'' = ''ebook''"
  by (simp add: lower_def lower_char_def char_eval)


lemma lower_bogus: "lower ''bogus'' = ''bogus''"
  by (simp add: lower_def lower_char_def char_eval)

lemma lower_preset_name:
  assumes "name \<in> set (map fst QUALITY_MAP)"
  shows "lower name = name"
proof -
  have "case_variant name name"
    by (simp add: case_variant_def same_letter_def list_all2_same)
  then show ?thesis using assms by (simp add: lower_case_variant preset_names_lower)
qed

lemma find_gs_error:
  "find_gs e fs explicit = Inl err \<Longrightarrow> \<exists>m. err = FileNotFoundError m"
  by (auto simp: find_gs_def Let_def split: if_splits option.splits)

lemma compress_cmd_error:
  "compress_cmd e fs input_pdf output_pdf preset dpi gs_path = Inl err \<Longrightarrow>
   (\<exists>m. err = FileNotFoundError m) \<or> (\<exists>m. err = ValueError m)"
  by (auto simp: compress_cmd_def Let_def split: sum.splits if_splits option.splits
           dest: find_gs_error)

lemma rev_split: "xs = rev (dropWhile P (rev xs)) @ rev (takeWhile P (rev xs))"
  by (metis rev_append rev_rev_ident takeWhile_dropWhile_id)

lemma strip_parts:
  "\<exists>a b. s = a @ strip s @ b \<and> list_all isspace a \<and> list_all isspace b"
proof -
  let ?t = "dropWhile isspace s"
  have 1: "s = takeWhile isspace s @ ?t" by simp
  have 2: "?t = strip s @ rev (takeWhile isspace (rev ?t))"
    unfolding strip_def lstrip_def rstrip_def by (rule rev_split)
  have 3: "list_all isspace (takeWhile isspace s)"
    by (simp add: list_all_iff) (meson set_takeWhileD)
  have 4: "list_all isspace (rev (takeWhile isspace (rev ?t)))"
    by (simp add: list_all_iff) (meson set_takeWhileD)
  have "s = takeWhile isspace s @ strip s @ rev (takeWhile isspace (rev ?t))"
    using 1 2 by metis
  with 3 4 show ?thesis by blast
qed

lemma strip_ends:
  assumes "strip s \<noteq> []"
  shows "\<not> isspace (hd (strip s)) \<and> \<not> isspace (last (strip s))"
proof -
  let ?t = "dropWhile isspace s"
  let ?u = "dropWhile isspace (rev ?t)"
  have s: "strip s = rev ?u" by (simp add: strip_def lstrip_def rstrip_def)
  with assms have u: "?u \<noteq> []" by simp
  then have "\<not> isspace (hd ?u)" by (rule hd_dropWhile)
  then have last: "\<not> isspace (last (strip s))" using u s by (simp add: last_rev)
  have t: "?t \<noteq> []"
  proof
    assume "?t = []"
    then have "?u = []" by (simp only: rev.simps dropWhile.simps)
    with u show False by contradiction
  qed
  then have ht: "\<not> isspace (hd ?t)" by (rule hd_dropWhile)
  have "?t = strip s @ rev (takeWhile isspace (rev ?t))"
    unfolding strip_def lstrip_def rstrip_def by (rule rev_split)
  then have "hd ?t = hd (strip s)" using assms by (metis hd_append2)
  with ht last show ?thesis by simp
qed

lemma compress_cmd_sample:
  assumes "which e = sample_which"
  shows "compress_cmd e sample_fs ''/tmp/doc.pdf'' ''/tmp/out.pdf'' ''ebook'' None None =
   Inr [''/usr/bin/gs'', ''-sDEVICE=pdfwrite'', ''-dCompatibilityLevel=1.4'',
        ''-dPDFSETTINGS=/ebook'', ''-dNOPAUSE'', ''-dBATCH'', ''-dQUIET'',
        ''-dDetectDuplicateImages=true'', ''-dCompressFonts=true'',
        ''-dSubsetFonts=true'', ''-sOutputFile=/tmp/out.pdf'', ''/tmp/doc.pdf'']"
proof -
  have f: "find_gs e sample_fs None = Inr ''/usr/bin/gs''"
    using assms by (simp add: find_gs_def sample_which_def)
  have l: "lower ''ebook'' = ''ebook''" by (simp add: lower_def lower_char_def char_eval)
  have "lower ''ebook'' \<in> set (map fst QUALITY_MAP)" by (simp add: l QUALITY_MAP_def)
  from compress_cmd_no_dpi [OF f this] show ?thesis by (simp add: l)
qed

lemma strip_corrupt: "strip ''error: corrupt xref\<newline>'' = ''error: corrupt xref''"
  by (simp add: strip_def lstrip_def rstrip_def isspace_def)

lemma strip_empty: "strip [] = []"
  by (simp add: strip_def lstrip_def rstrip_def)

lemma find_gs_bare:
  "find_gs bare_env fs None =
   Inl (FileNotFoundError
     ''Ghostscript not found. Install it and/or add its bin folder to PATH (so gswin64c.exe is discoverable).'')"
  by (simp add: find_gs_def bare_env_def sample_env_def no_which_def)

lemma bogus_invalid: "lower ''bogus'' \<notin> set (map fst QUALITY_MAP)"
  by (simp add: lower_bogus QUALITY_MAP_def)

section \<open>The preset table\<close>



section \<open>The argument vector\<close>

text \<open>
  C1.  When the engine is located and the preset, lowered, is one of the five names, a call
  of \<open>compress_pdf\<close> with no target resolution hands \<open>subprocess.run\<close> exactly this list:
  the engine executable, \<open>-sDEVICE=pdfwrite\<close>, \<open>-dCompatibilityLevel=1.4\<close>, the preset token,
  the three execution flags (written \<open>-dNOPAUSE\<close>, \<open>-dBATCH\<close>, \<open>-dQUIET\<close>), the
  duplicate-image flag, the two font flags, the output-file flag and, right after it, the
  input path.
\<close>

theorem compress_pdf_base_argument_list:
  assumes "find_gs e (files w) gs_path = Inr gs"
    and "lower preset \<in> set (map fst QUALITY_MAP)"
  shows "trace (snd (compress_pdf e w input_pdf output_pdf preset None gs_path)) =
         trace w @
         [Spawn [gs, ''-sDEVICE=pdfwrite'', ''-dCompatibilityLevel=1.4'',
                 ''-dPDFSETTINGS=/'' @ lower preset, ''-dNOPAUSE'', ''-dBATCH'', ''-dQUIET'',
                 ''-dDetectDuplicateImages=true'', ''-dCompressFonts=true'',
                 ''-dSubsetFonts=true'', ''-sOutputFile='' @ output_pdf, input_pdf]]"
  using assms by (simp add: trace_compress_pdf compress_cmd_no_dpi)

theorem compress_pdf_base_argument_list_witness:
  "find_gs sample_env (files sample_world) None = Inr ''/usr/bin/gs'' \<and>
   lower ''EBook'' \<in> set (map fst QUALITY_MAP) \<and>
   trace (snd (compress_pdf sample_env sample_world ''/tmp/doc.pdf'' ''/tmp/out.pdf''
                 ''EBook'' None None)) =
   [Spawn [''/usr/bin/gs'', ''-sDEVICE=pdfwrite'', ''-dCompatibilityLevel=1.4'',
           ''-dPDFSETTINGS=/ebook'', ''-dNOPAUSE'', ''-dBATCH'', ''-dQUIET'',
           ''-dDetectDuplicateImages=true'', ''-dCompressFonts=true'',
           ''-dSubsetFonts=true'', ''-sOutputFile=/tmp/out.pdf'', ''/tmp/doc.pdf'']]"
proof -
  have h1: "find_gs sample_env (files sample_world) None = Inr ''/usr/bin/gs''"
    by (simp add: sample_world_def find_gs_sample)
  have h2: "lower ''EBook'' \<in> set (map fst QUALITY_MAP)"
    by (simp add: lower_EBook QUALITY_MAP_def)
  show ?thesis
    using h1 h2
      compress_pdf_base_argument_list [OF h1 h2, of "''/tmp/doc.pdf''" "''/tmp/out.pdf''"]
    by (simp add: lower_EBook sample_world_def)
qed



section \<open>Engine failure\<close>

text \<open>
  C4.  \<open>compress_pdf\<close> raises \<open>RuntimeError\<close> exactly when \<open>subprocess.run\<close> returned a
  completed process whose exit status is not zero, and the message is the fixed frame
  around the stripped standard error and standard output.  When the exit status is zero
  it returns \<open>None\<close> whatever file system the engine left, so without looking for the
  output file.  \<open>strip\<close> removes white space at both ends only, and all of it.
\<close>

theorem compress_pdf_runtime_error:
  "((fst (compress_pdf e w input_pdf output_pdf preset dpi gs_path) = Inl (RuntimeError m)) =
      (\<exists>cmd result fs'.
          compress_cmd e (files w) input_pdf output_pdf preset dpi gs_path = Inr cmd \<and>
          run e cmd (files w) = (Inr result, fs') \<and> returncode result \<noteq> 0 \<and>
          m = ''Ghostscript failed.\<newline>STDERR:\<newline>'' @ strip (stderr result) @
              ''\<newline>\<newline>STDOUT:\<newline>'' @ strip (stdout result))) \<and>
   (\<forall>cmd result fs'.
      compress_cmd e (files w) input_pdf output_pdf preset dpi gs_path = Inr cmd \<and>
      run e cmd (files w) = (Inr result, fs') \<and> returncode result = 0 \<longrightarrow>
      compress_pdf e w input_pdf output_pdf preset dpi gs_path =
        (Inr (), \<lparr>files = fs', trace = trace w @ [Spawn cmd]\<rparr>)) \<and>
   (\<forall>s. (\<exists>a b. s = a @ strip s @ b \<and> list_all isspace a \<and> list_all isspace b) \<and>
        (strip s \<noteq> [] \<longrightarrow> \<not> isspace (hd (strip s)) \<and> \<not> isspace (last (strip s))))"
proof -
  let ?cmd = "compress_cmd e (files w) input_pdf output_pdf preset dpi gs_path"
  have raised: "(fst (compress_pdf e w input_pdf output_pdf preset dpi gs_path) =
        Inl (RuntimeError m)) =
      (\<exists>cmd result fs'.
          ?cmd = Inr cmd \<and>
          run e cmd (files w) = (Inr result, fs') \<and> returncode result \<noteq> 0 \<and>
          m = ''Ghostscript failed.\<newline>STDERR:\<newline>'' @ strip (stderr result) @
              ''\<newline>\<newline>STDOUT:\<newline>'' @ strip (stdout result))"
  proof (cases ?cmd)
    case (Inl err)
    then have "err \<noteq> RuntimeError m" using compress_cmd_error [OF Inl] by auto
    with Inl show ?thesis by (simp add: compress_pdf_def)
  next
    case built: (Inr cmd)
    obtain r fs' where r: "run e cmd (files w) = (r, fs')" by (cases "run e cmd (files w)")
    show ?thesis
    proof (cases r)
      case (Inl exn)
      with built r show ?thesis by (simp add: compress_pdf_def)
    next
      case (Inr result)
      with built r show ?thesis
        by (auto simp: compress_pdf_def failure_message_def Let_def split: if_splits)
    qed
  qed
  have returned: "\<forall>cmd result fs'.
      ?cmd = Inr cmd \<and> run e cmd (files w) = (Inr result, fs') \<and> returncode result = 0 \<longrightarrow>
      compress_pdf e w input_pdf output_pdf preset dpi gs_path =
        (Inr (), \<lparr>files = fs', trace = trace w @ [Spawn cmd]\<rparr>)"
    by (simp add: compress_pdf_def)
  have trimmed: "\<forall>s. (\<exists>a b. s = a @ strip s @ b \<and> list_all isspace a \<and> list_all isspace b) \<and>
        (strip s \<noteq> [] \<longrightarrow> \<not> isspace (hd (strip s)) \<and> \<not> isspace (last (strip s)))"
    using strip_parts strip_ends by blast
  from raised returned trimmed show ?thesis by (intro conjI)
qed

theorem compress_pdf_runtime_error_witness:
  "fst (compress_pdf failing_env sample_world ''/tmp/doc.pdf'' ''/tmp/out.pdf'' ''ebook'' None None) =
     Inl (RuntimeError ''Ghostscript failed.\<newline>STDERR:\<newline>error: corrupt xref\<newline>\<newline>STDOUT:\<newline>'') \<and>
   fst (compress_pdf sample_env sample_world ''/tmp/doc.pdf'' ''/tmp/out.pdf'' ''ebook'' None None) =
     Inr () \<and>
   \<not> path_exists
       (files (snd (compress_pdf sample_env sample_world ''/tmp/doc.pdf'' ''/tmp/out.pdf''
                      ''ebook'' None None)))
       ''/tmp/out.pdf''"
proof -
  let ?cmd = "[''/usr/bin/gs'', ''-sDEVICE=pdfwrite'', ''-dCompatibilityLevel=1.4'',
        ''-dPDFSETTINGS=/ebook'', ''-dNOPAUSE'', ''-dBATCH'', ''-dQUIET'',
        ''-dDetectDuplicateImages=true'', ''-dCompressFonts=true'',
        ''-dSubsetFonts=true'', ''-sOutputFile=/tmp/out.pdf'', ''/tmp/doc.pdf'']"
  let ?bad = "\<lparr>returncode = 1, stdout = [], stderr = ''error: corrupt xref\<newline>''\<rparr>"
  let ?good = "\<lparr>returncode = 0, stdout = [], stderr = []\<rparr>"
  have c1: "compress_cmd failing_env (files sample_world) ''/tmp/doc.pdf'' ''/tmp/out.pdf''
              ''ebook'' None None = Inr ?cmd"
    by (simp add: sample_world_def compress_cmd_sample failing_env_def sample_env_def)
  have r1: "run failing_env ?cmd (files sample_world) = (Inr ?bad, sample_fs)"
    by (simp add: failing_env_def sample_env_def gs_corrupt_def sample_world_def)
  have e1: "returncode ?bad \<noteq> 0" by simp
  have c2: "compress_cmd sample_env (files sample_world) ''/tmp/doc.pdf'' ''/tmp/out.pdf''
              ''ebook'' None None = Inr ?cmd"
    by (simp add: sample_world_def compress_cmd_sample sample_env_def)
  have r2: "run sample_env ?cmd (files sample_world) = (Inr ?good, sample_fs)"
    by (simp add: sample_env_def gs_silent_def sample_world_def)
  have e2: "returncode ?good = 0" by simp
  have m: "''Ghostscript failed.\<newline>STDERR:\<newline>error: corrupt xref\<newline>\<newline>STDOUT:\<newline>'' =
           ''Ghostscript failed.\<newline>STDERR:\<newline>'' @ strip (stderr ?bad) @
              ''\<newline>\<newline>STDOUT:\<newline>'' @ strip (stdout ?bad)"
    by (simp add: strip_corrupt strip_empty)
  have first: "fst (compress_pdf failing_env sample_world ''/tmp/doc.pdf'' ''/tmp/out.pdf''
                 ''ebook'' None None) =
     Inl (RuntimeError ''Ghostscript failed.\<newline>STDERR:\<newline>error: corrupt xref\<newline>\<newline>STDOUT:\<newline>'')"
    using compress_pdf_runtime_error
      [of failing_env sample_world "''/tmp/doc.pdf''" "''/tmp/out.pdf''" "''ebook''" None None
          "''Ghostscript failed.\<newline>STDERR:\<newline>error: corrupt xref\<newline>\<newline>STDOUT:\<newline>''"]
      c1 r1 e1 m
    by blast
  have second: "compress_pdf sample_env sample_world ''/tmp/doc.pdf'' ''/tmp/out.pdf''
                 ''ebook'' None None =
        (Inr (), \<lparr>files = sample_fs, trace = trace sample_world @ [Spawn ?cmd]\<rparr>)"
    using compress_pdf_runtime_error
      [of sample_env sample_world "''/tmp/doc.pdf''" "''/tmp/out.pdf''" "''ebook''" None None]
      c2 r2 e2
    by blast
  have "\<not> path_exists sample_fs ''/tmp/out.pdf''"
    by (simp add: path_exists_def sample_fs_def)
  with first second show ?thesis by simp
qed

section \<open>Preset validation\<close>

text \<open>
  C3, as the claim states it, fails: \<open>find_gs\<close> runs before the preset is looked at
  (line 39 before line 40), so on a host where no engine is found the preset \<open>bogus\<close>
  ends in the locator's \<open>FileNotFoundError\<close>, not in a validation error.
\<close>

theorem invalid_preset_without_engine:
  "lower ''bogus'' \<notin> set (map fst QUALITY_MAP) \<and>
   fst (compress_pdf bare_env sample_world ''/tmp/doc.pdf'' ''/tmp/out.pdf'' ''bogus'' None None) =
   Inl (FileNotFoundError
     ''Ghostscript not found. Install it and/or add its bin folder to PATH (so gswin64c.exe is discoverable).'')"
proof -
  have "compress_cmd bare_env (files sample_world) ''/tmp/doc.pdf'' ''/tmp/out.pdf''
          ''bogus'' None None =
        Inl (FileNotFoundError
          ''Ghostscript not found. Install it and/or add its bin folder to PATH (so gswin64c.exe is discoverable).'')"
    by (simp add: compress_cmd_invalid [OF bogus_invalid] find_gs_bare)
  from compress_pdf_Inl [OF this] bogus_invalid show ?thesis by simp
qed

text \<open>
  C3, amended.  For a preset that, lowered by \<open>str.lower()\<close>, is none of the five names:
  if the locator fails, its error is the result; if it succeeds, the result is the
  \<open>ValueError\<close> whose message quotes the preset as given and lists
  \<open>screen, ebook, printer, prepress, default\<close>.  Either way the world is returned as it
  was: nothing is spawned.
\<close>

theorem invalid_preset_rejected:
  assumes "lower preset \<notin> set (map fst QUALITY_MAP)"
  shows "compress_pdf e w input_pdf output_pdf preset dpi gs_path =
         (case find_gs e (files w) gs_path of
            Inl err \<Rightarrow> (Inl err, w)
          | Inr gs \<Rightarrow>
              (Inl (ValueError (''Unknown preset '' @ [CHR 0x27] @ preset @ [CHR 0x27] @
                      ''. Choose: screen, ebook, printer, prepress, default'')), w))"
  using assms by (simp add: compress_pdf_def compress_cmd_invalid split: sum.splits)

theorem invalid_preset_rejected_witness:
  "lower ''bogus'' \<notin> set (map fst QUALITY_MAP) \<and>
   compress_pdf sample_env sample_world ''/tmp/doc.pdf'' ''/tmp/out.pdf'' ''bogus'' None None =
     (Inl (ValueError (''Unknown preset '' @ [CHR 0x27] @ ''bogus'' @ [CHR 0x27] @
             ''. Choose: screen, ebook, printer, prepress, default'')), sample_world)"
proof -
  have f: "find_gs sample_env (files sample_world) None = Inr ''/usr/bin/gs''"
    by (simp add: sample_world_def find_gs_sample)
  show ?thesis
    using bogus_invalid f
      invalid_preset_rejected [OF bogus_invalid, of sample_env sample_world
        "''/tmp/doc.pdf''" "''/tmp/out.pdf''" None None]
    by simp
qed

section \<open>The engine locator\<close>




text \<open>
  C7.  With no explicit path the locator asks \<open>shutil.which\<close> for \<open>gswin64c\<close>, then
  \<open>gswin32c\<close>, then \<open>gs\<close>, and returns the first answer that is a non-empty path; when
  none is, it raises \<open>FileNotFoundError\<close> with the instruction to install Ghostscript and
  put its bin folder on PATH.
\<close>

theorem find_gs_search_order:
  "find_gs e fs None =
     (case found e ''gswin64c'' of
        Some p \<Rightarrow> Inr p
      | None \<Rightarrow>
          (case found e ''gswin32c'' of
             Some p \<Rightarrow> Inr p
           | None \<Rightarrow>
               (case found e ''gs'' of
                  Some p \<Rightarrow> Inr p
                | None \<Rightarrow>
                    Inl (FileNotFoundError
                      ''Ghostscript not found. Install it and/or add its bin folder to PATH (so gswin64c.exe is discoverable).'')))) \<and>
   (\<forall>name p. (found e name = Some p) = (which e name = Some p \<and> p \<noteq> []))"
  by (auto simp: find_gs_def found_def split: option.splits)

lemma find_gs_prefers_gswin32c:
  "find_gs (sample_env\<lparr>which := windows_which\<rparr>) fs None = Inr ''C:/gs/bin/gswin32c.EXE''"
  by (simp add: find_gs_def windows_which_def)

section \<open>The command-line entry point\<close>






lemma main_compress:
  assumes "args_preset a \<in> set (map fst QUALITY_MAP)"
    and "mkdir e (files w) (parent e (resolve e (args_output a))) = (Inr u, fs1)"
    and "path_exists fs1 (resolve e (args_input a))"
    and "lower (suffix e (resolve e (args_input a))) = ''.pdf''"
    and "compress_pdf e
           \<lparr>files = fs1, trace = trace w @ [Mkdir (parent e (resolve e (args_output a)))]\<rparr>
           (resolve e (args_input a)) (resolve e (args_output a))
           (args_preset a) (args_dpi a) (args_gs a) = (r, w2)"
  shows "\<exists>prints. trace (snd (main e w a)) = trace w2 @ prints \<and>
           spawned prints = [] \<and> created prints = [] \<and>
           (\<forall>err. r = Inl err \<longrightarrow> main e w a = (Inl err, w2))"
proof (cases r)
  case (Inl err)
  with assms have "main e w a = (Inl err, w2)" by (simp add: main_def Let_def)
  with Inl show ?thesis by simp
next
  case (Inr v)
  with assms have m: "main e w a =
      (case stat_size (files w2) (resolve e (args_input a)) of
         Inl err \<Rightarrow> (Inl err, w2)
       | Inr before \<Rightarrow>
           (case stat_size (files w2) (resolve e (args_output a)) of
              Inl err \<Rightarrow> (Inl err, w2)
            | Inr after \<Rightarrow>
                (let w3 = w2\<lparr>trace := trace w2 @ [Print (''Saved: '' @ resolve e (args_output a))]\<rparr>
                 in if before = 0 then (Inl ZeroDivisionError, w3)
                    else (Inr (),
                          w3\<lparr>trace := trace w3 @ [Print (size_line e before after)]\<rparr>))))"
    by (simp add: main_def Let_def)
  show ?thesis
    unfolding m using Inr
    by (cases "stat_size (files w2) (resolve e (args_input a))";
        cases "stat_size (files w2) (resolve e (args_output a))")
       (auto simp: Let_def)
qed











lemma ebook_name: "''ebook'' \<in> set (map fst QUALITY_MAP)"
  by (simp add: QUALITY_MAP_def)

lemma lower_dot_pdf: "lower ''.pdf'' = ''.pdf''"
  by (simp add: lower_def lower_char_def char_eval)

lemma find_gs_sample_which:
  "which e = sample_which \<Longrightarrow> find_gs e fs None = Inr ''/usr/bin/gs''"
  by (simp add: find_gs_def sample_which_def)

lemma compress_pdf_gs_corrupt:
  assumes "run e = gs_corrupt"
    and "compress_cmd e (files w) input_pdf output_pdf preset dpi gs_path = Inr cmd"
  shows "compress_pdf e w input_pdf output_pdf preset dpi gs_path =
         (Inl (RuntimeError
            ''Ghostscript failed.\<newline>STDERR:\<newline>error: corrupt xref\<newline>\<newline>STDOUT:\<newline>''),
          \<lparr>files = files w, trace = trace w @ [Spawn cmd]\<rparr>)"
  using assms
  by (simp add: compress_pdf_def gs_corrupt_def failure_message_def strip_corrupt strip_empty)

lemma sample_mkdir_new:
  "fs d = None \<Longrightarrow> sample_mkdir fs d = (Inr (), fs(d \<mapsto> 4096))"
  by (simp add: sample_mkdir_def)


lemma failing_env_sel:
  "resolve failing_env = (\<lambda>p. p)" "parent failing_env = posix_parent"
  "suffix failing_env = posix_suffix" "mkdir failing_env = sample_mkdir"
  "which failing_env = sample_which" "run failing_env = gs_corrupt"
  by (simp_all add: failing_env_def sample_env_def)

lemma main_failing_run:
  assumes d: "posix_parent out = dir" and new: "sample_fs dir = None"
    and ex: "path_exists (sample_fs(dir \<mapsto> 4096)) inp" and sf: "posix_suffix inp = ''.pdf''"
  shows "main failing_env sample_world
           \<lparr>args_input = inp, args_output = out, args_preset = ''ebook'',
            args_dpi = None, args_gs = None\<rparr> =
         (Inl (RuntimeError
            ''Ghostscript failed.\<newline>STDERR:\<newline>error: corrupt xref\<newline>\<newline>STDOUT:\<newline>''),
          \<lparr>files = sample_fs(dir \<mapsto> 4096),
           trace = [Mkdir dir,
                    Spawn [''/usr/bin/gs'', ''-sDEVICE=pdfwrite'', ''-dCompatibilityLevel=1.4'',
                           ''-dPDFSETTINGS=/ebook'', ''-dNOPAUSE'', ''-dBATCH'', ''-dQUIET'',
                           ''-dDetectDuplicateImages=true'', ''-dCompressFonts=true'',
                           ''-dSubsetFonts=true'', ''-sOutputFile='' @ out, inp]]\<rparr>)"
proof -
  let ?a = "\<lparr>args_input = inp, args_output = out, args_preset = ''ebook'',
            args_dpi = None, args_gs = None\<rparr>"
  let ?fs1 = "sample_fs(dir \<mapsto> 4096)"
  let ?w1 = "\<lparr>files = ?fs1, trace = trace sample_world @ [Mkdir dir]\<rparr>"
  let ?cmd = "[''/usr/bin/gs'', ''-sDEVICE=pdfwrite'', ''-dCompatibilityLevel=1.4'',
               ''-dPDFSETTINGS=/ebook'', ''-dNOPAUSE'', ''-dBATCH'', ''-dQUIET'',
               ''-dDetectDuplicateImages=true'', ''-dCompressFonts=true'',
               ''-dSubsetFonts=true'', ''-sOutputFile='' @ out, inp]"
  have p: "args_preset ?a \<in> set (map fst QUALITY_MAP)" using ebook_name by simp
  have mk: "mkdir failing_env (files sample_world) (parent failing_env (resolve failing_env (args_output ?a))) =
            (Inr (), ?fs1)"
    using d new by (simp add: failing_env_sel sample_world_def sample_mkdir_new)
  have e1: "path_exists ?fs1 (resolve failing_env (args_input ?a))"
    using ex by (simp add: failing_env_sel)
  have s1: "lower (suffix failing_env (resolve failing_env (args_input ?a))) = ''.pdf''"
    using sf by (simp add: failing_env_sel lower_dot_pdf)
  have f: "find_gs failing_env ?fs1 None = Inr ''/usr/bin/gs''"
    by (rule find_gs_sample_which) (simp add: failing_env_sel)
  have l: "lower ''ebook'' \<in> set (map fst QUALITY_MAP)"
    using ebook_name by (simp add: lower_preset_name [OF ebook_name])
  have cc: "compress_cmd failing_env (files ?w1) inp out ''ebook'' None None = Inr ?cmd"
    using compress_cmd_no_dpi [OF f l, of inp out] by (simp add: lower_preset_name [OF ebook_name])
  have c: "compress_pdf failing_env
             \<lparr>files = ?fs1,
              trace = trace sample_world @
                [Mkdir (parent failing_env (resolve failing_env (args_output ?a)))]\<rparr>
             (resolve failing_env (args_input ?a)) (resolve failing_env (args_output ?a))
             (args_preset ?a) (args_dpi ?a) (args_gs ?a) =
           (Inl (RuntimeError
              ''Ghostscript failed.\<newline>STDERR:\<newline>error: corrupt xref\<newline>\<newline>STDOUT:\<newline>''),
            \<lparr>files = ?fs1, trace = trace ?w1 @ [Spawn ?cmd]\<rparr>)"
    using compress_pdf_gs_corrupt [OF failing_env_sel(6) cc] d by (simp add: failing_env_sel)
  from main_compress [OF p mk e1 s1 c] show ?thesis by (auto simp: sample_world_def)
qed








text \<open>
  C8: the claim holds of the state the guard of line 94 reads, not of the state the
  program is started in.  \<open>out.parent.mkdir(parents=True, exist_ok=True)\<close> (line 92) runs
  before the guard, so an input path that does not exist when the program starts, and that
  is the directory the output is to be written into, exists by the time
  \<open>inp.exists()\<close> is asked.  On the sample host \<open>/tmp/x.pdf\<close> does not exist; started with
  input \<open>/tmp/x.pdf\<close> and output \<open>/tmp/x.pdf/out.pdf\<close> the program creates the directory
  \<open>/tmp/x.pdf\<close>, passes the guard, and runs the engine on it.
\<close>

theorem main_compresses_missing_input:
  "\<not> path_exists (files sample_world) ''/tmp/x.pdf'' \<and>
   main failing_env sample_world args_nested =
     (Inl (RuntimeError
        ''Ghostscript failed.\<newline>STDERR:\<newline>error: corrupt xref\<newline>\<newline>STDOUT:\<newline>''),
      \<lparr>files = sample_fs(''/tmp/x.pdf'' \<mapsto> 4096),
       trace = [Mkdir ''/tmp/x.pdf'',
                Spawn [''/usr/bin/gs'', ''-sDEVICE=pdfwrite'', ''-dCompatibilityLevel=1.4'',
                       ''-dPDFSETTINGS=/ebook'', ''-dNOPAUSE'', ''-dBATCH'', ''-dQUIET'',
                       ''-dDetectDuplicateImages=true'', ''-dCompressFonts=true'',
                       ''-dSubsetFonts=true'', ''-sOutputFile=/tmp/x.pdf/out.pdf'',
                       ''/tmp/x.pdf'']]\<rparr>)"
proof -
  have d: "posix_parent ''/tmp/x.pdf/out.pdf'' = ''/tmp/x.pdf''" by (simp add: posix_parent_def)
  have new: "sample_fs ''/tmp/x.pdf'' = None" by (simp add: sample_fs_def)
  have ex: "path_exists (sample_fs(''/tmp/x.pdf'' \<mapsto> 4096)) ''/tmp/x.pdf''"
    by (simp add: path_exists_def)
  have sf: "posix_suffix ''/tmp/x.pdf'' = ''.pdf''" by (simp add: posix_suffix_def)
  from main_failing_run [OF d new ex sf] new show ?thesis
    by (simp add: args_nested_def path_exists_def sample_world_def)
qed

theorem main_compresses_missing_input_witness:
  "spawned (trace (snd (main failing_env sample_world args_nested))) =
     [[''/usr/bin/gs'', ''-sDEVICE=pdfwrite'', ''-dCompatibilityLevel=1.4'',
       ''-dPDFSETTINGS=/ebook'', ''-dNOPAUSE'', ''-dBATCH'', ''-dQUIET'',
       ''-dDetectDuplicateImages=true'', ''-dCompressFonts=true'',
       ''-dSubsetFonts=true'', ''-sOutputFile=/tmp/x.pdf/out.pdf'', ''/tmp/x.pdf'']]"
  using main_compresses_missing_input by simp




section \<open>The target resolution\<close>



end
